theory Spec2Isabelle
  imports Complex_Main "HOL-Library.Word" "HOL-Library.AList"
begin

section \<open>Numbers of the coordinate mapper\<close>

text \<open>
  The tracking page computes with JavaScript numbers. Rounding is not modelled: a finite
  number is a \<open>real\<close>. In the coordinate mapper a denominator can be zero, so its numbers
  carry the three non-finite values of the language too, with the IEEE rules for them.
  Signed zero is not modelled: the denominators are a video's width and height, which are
  non-negative integers.
\<close>

datatype jsnum = Fin real | PosInf | NegInf | NaN

fun jdiv :: "jsnum \<Rightarrow> jsnum \<Rightarrow> jsnum" where
  "jdiv NaN b = NaN"
| "jdiv a NaN = NaN"
| "jdiv (Fin a) (Fin b) =
     (if b = 0 then (if a = 0 then NaN else if 0 < a then PosInf else NegInf)
      else Fin (a / b))"
| "jdiv (Fin a) PosInf = Fin 0"
| "jdiv (Fin a) NegInf = Fin 0"
| "jdiv PosInf (Fin b) = (if b < 0 then NegInf else PosInf)"
| "jdiv NegInf (Fin b) = (if b < 0 then PosInf else NegInf)"
| "jdiv PosInf PosInf = NaN"
| "jdiv PosInf NegInf = NaN"
| "jdiv NegInf PosInf = NaN"
| "jdiv NegInf NegInf = NaN"

fun jmul :: "jsnum \<Rightarrow> jsnum \<Rightarrow> jsnum" where
  "jmul NaN b = NaN"
| "jmul a NaN = NaN"
| "jmul (Fin a) (Fin b) = Fin (a * b)"
| "jmul (Fin a) PosInf = (if a = 0 then NaN else if 0 < a then PosInf else NegInf)"
| "jmul (Fin a) NegInf = (if a = 0 then NaN else if 0 < a then NegInf else PosInf)"
| "jmul PosInf (Fin b) = (if b = 0 then NaN else if 0 < b then PosInf else NegInf)"
| "jmul NegInf (Fin b) = (if b = 0 then NaN else if 0 < b then NegInf else PosInf)"
| "jmul PosInf PosInf = PosInf"
| "jmul PosInf NegInf = NegInf"
| "jmul NegInf PosInf = NegInf"
| "jmul NegInf NegInf = PosInf"


fun jsub :: "jsnum \<Rightarrow> jsnum \<Rightarrow> jsnum" where
  "jsub NaN b = NaN"
| "jsub a NaN = NaN"
| "jsub (Fin a) (Fin b) = Fin (a - b)"
| "jsub (Fin a) PosInf = NegInf"
| "jsub (Fin a) NegInf = PosInf"
| "jsub PosInf (Fin b) = PosInf"
| "jsub NegInf (Fin b) = NegInf"
| "jsub PosInf PosInf = NaN"
| "jsub PosInf NegInf = PosInf"
| "jsub NegInf PosInf = NegInf"
| "jsub NegInf NegInf = NaN"

text \<open>\<open>Math.max\<close> of two numbers: \<open>NaN\<close> as soon as one argument is.\<close>

fun jmax :: "jsnum \<Rightarrow> jsnum \<Rightarrow> jsnum" where
  "jmax NaN b = NaN"
| "jmax a NaN = NaN"
| "jmax (Fin a) (Fin b) = Fin (max a b)"
| "jmax PosInf b = PosInf"
| "jmax a PosInf = PosInf"
| "jmax NegInf b = b"
| "jmax a NegInf = a"

text \<open>\<open>Math.round\<close>: the nearest integer, a half rounding up.\<close>

definition jsRound :: "real \<Rightarrow> int" where
  "jsRound v = \<lfloor>v + 1 / 2\<rfloor>"

section \<open>Coordinate mapper\<close>

text \<open>
  \<open>renderStateRef.current\<close>: the affine mapping from video pixels to the display, with
  the video size it was computed for.
\<close>

record renderState =
  scale :: jsnum
  drawX :: jsnum
  drawY :: jsnum
  videoW :: real
  videoH :: real

text \<open>The value \<open>useRef\<close> gives the render state before any sizing has run.\<close>

definition initialRenderState :: renderState where
  "initialRenderState =
     \<lparr>scale = Fin 1, drawX = Fin 0, drawY = Fin 0, videoW = 0, videoH = 0\<rparr>"

text \<open>The canvas element's backing-store size, in device pixels.\<close>

record canvas =
  canvasWidth :: int
  canvasHeight :: int

text \<open>What \<open>setupCanvasSizing\<close> reads and writes: the canvas (absent before mount) and the render state.\<close>

record sizing =
  canvasRef :: "canvas option"
  renderStateRef :: renderState

text \<open>
  \<open>setupCanvasSizing\<close>, run when the video's metadata has loaded and on every window
  resize. Its inputs are \<open>window.devicePixelRatio\<close>, \<open>window.innerWidth\<close>,
  \<open>window.innerHeight\<close>, \<open>v.videoWidth\<close> and \<open>v.videoHeight\<close>. Without a canvas it
  returns at once; there is no other guard.
\<close>

definition setupCanvasSizing :: "real \<Rightarrow> real \<Rightarrow> real \<Rightarrow> real \<Rightarrow> real \<Rightarrow> sizing \<Rightarrow> sizing" where
  "setupCanvasSizing devicePixelRatio cssW cssH videoWidth videoHeight st =
     (case canvasRef st of
        None \<Rightarrow> st
      | Some c \<Rightarrow>
          let dpr = (if devicePixelRatio = 0 then 1 else devicePixelRatio);
              c' = c\<lparr>canvasWidth := jsRound (cssW * dpr), canvasHeight := jsRound (cssH * dpr)\<rparr>;
              scale' = jmax (jdiv (Fin cssW) (Fin videoWidth)) (jdiv (Fin cssH) (Fin videoHeight));
              drawW = jmul (Fin videoWidth) scale';
              drawH = jmul (Fin videoHeight) scale';
              drawX' = jdiv (jsub (Fin cssW) drawW) (Fin 2);
              drawY' = jdiv (jsub (Fin cssH) drawH) (Fin 2)
          in \<lparr>canvasRef = Some c',
              renderStateRef = \<lparr>scale = scale', drawX = drawX', drawY = drawY',
                                videoW = videoWidth, videoH = videoHeight\<rparr>\<rparr>)"


text \<open>A mounted canvas with the initial render state, as the page has it when the camera starts.\<close>

definition mountedSizing :: sizing where
  "mountedSizing =
     \<lparr>canvasRef = Some \<lparr>canvasWidth = 300, canvasHeight = 150\<rparr>,
      renderStateRef = initialRenderState\<rparr>"

section \<open>Landmark smoother\<close>

text \<open>A pose keypoint as the pose backend returns it; the recorder stores the same shape.\<close>

record 'n keypoint =
  kp_name :: string
  kp_x :: 'n
  kp_y :: 'n
  kp_score :: 'n

text \<open>The object \<open>{x, y, score}\<close>: a raw observation, and a smoothed one.\<close>

record position =
  pos_x :: real
  pos_y :: real
  pos_score :: real

text \<open>An entry of \<open>newTrackedParts\<close>: the smoothed position with its radius and update time.\<close>

record trackedPart =
  tp_x :: real
  tp_y :: real
  tp_score :: real
  tp_radius :: real
  tp_lastUpdate :: nat

text \<open>\<open>keypoints.find(kp => kp.name === bodyPartName)\<close>, kept only when its score is above 0.3.\<close>

definition getBodyPartPosition :: "real keypoint list \<Rightarrow> string \<Rightarrow> position option" where
  "getBodyPartPosition keypoints bodyPartName =
     (case find (\<lambda>kp. kp_name kp = bodyPartName) keypoints of
        None \<Rightarrow> None
      | Some kp \<Rightarrow>
          if kp_score kp > 0.3
          then Some \<lparr>pos_x = kp_x kp, pos_y = kp_y kp, pos_score = kp_score kp\<rparr>
          else None)"

definition smoothingFactor :: real where
  "smoothingFactor = 0.7"

text \<open>The radius table of \<open>updateBodyPartTracking\<close>, in the order of its keys.\<close>

definition collisionAreas :: "(string \<times> real) list" where
  "collisionAreas =
     [(''left_wrist'', 40), (''right_wrist'', 40),
      (''left_ankle'', 35), (''right_ankle'', 35),
      (''nose'', 30),
      (''left_elbow'', 25), (''right_elbow'', 25),
      (''left_knee'', 25), (''right_knee'', 25),
      (''left_shoulder'', 20), (''right_shoulder'', 20),
      (''left_hip'', 20), (''right_hip'', 20)]"

text \<open>
  The state one pass of the loop works on: \<open>smoothedKeypointsRef.current\<close>, which lives
  across frames, and \<open>newTrackedParts\<close>, an object whose keys keep their insertion order.
\<close>

type_synonym smoothed = "string \<rightharpoonup> position"
type_synonym trackedParts = "(string \<times> trackedPart) list"

text \<open>
  The body of the \<open>forEach\<close> over the keys of the table, for one key with its radius.
  \<open>clock\<close> is what \<open>Date.now()\<close> returns while that key is handled.
\<close>

definition trackBodyPart ::
  "real keypoint list \<Rightarrow> (string \<Rightarrow> nat) \<Rightarrow> string \<times> real \<Rightarrow> smoothed \<times> trackedParts \<Rightarrow> smoothed \<times> trackedParts" where
  "trackBodyPart keypoints clock area st =
     (let bodyPart = fst area in
      case getBodyPartPosition keypoints bodyPart of
        None \<Rightarrow> st
      | Some raw \<Rightarrow>
          let prev = (case fst st bodyPart of None \<Rightarrow> raw | Some p \<Rightarrow> p);
              sx = pos_x prev * smoothingFactor + pos_x raw * (1 - smoothingFactor);
              sy = pos_y prev * smoothingFactor + pos_y raw * (1 - smoothingFactor)
          in ((fst st)(bodyPart \<mapsto> \<lparr>pos_x = sx, pos_y = sy, pos_score = pos_score raw\<rparr>),
              AList.update bodyPart
                \<lparr>tp_x = sx, tp_y = sy, tp_score = pos_score raw,
                 tp_radius = snd area, tp_lastUpdate = clock bodyPart\<rparr>
                (snd st)))"

text \<open>
  \<open>updateBodyPartTracking\<close>: from the keypoints of a frame and the smoother's state to the
  new state and the tracked parts of this frame, which start empty on every call.
\<close>

definition updateBodyPartTracking ::
  "real keypoint list \<Rightarrow> (string \<Rightarrow> nat) \<Rightarrow> smoothed \<Rightarrow> smoothed \<times> trackedParts" where
  "updateBodyPartTracking keypoints clock smoothedKeypoints =
     fold (trackBodyPart keypoints clock) collisionAreas (smoothedKeypoints, [])"

text \<open>
  A run of frames through the smoother: the tracked parts of each frame in order, and the
  state the smoother is left in.
\<close>

fun trackFrames ::
  "(string \<Rightarrow> nat) \<Rightarrow> real keypoint list list \<Rightarrow> smoothed \<Rightarrow> trackedParts list \<times> smoothed" where
  "trackFrames clock [] sm = ([], sm)"
| "trackFrames clock (kps # rest) sm =
     (let r = updateBodyPartTracking kps clock sm;
          rs = trackFrames clock rest (fst r)
      in (snd r # fst rs, snd rs))"

section \<open>Collision detector\<close>

record vec2 =
  vec_x :: real
  vec_y :: real

record target =
  tgt_id :: string
  tgt_position :: vec2
  tgt_radius :: real

record collisionEvent =
  ev_bodyPart :: string
  ev_target :: string
  ev_timestamp :: nat
  ev_position :: trackedPart

text \<open>\<open>checkCollision\<close>: false when either position is missing, else the distance test.\<close>

definition checkCollision :: "trackedPart option \<Rightarrow> vec2 option \<Rightarrow> real \<Rightarrow> bool" where
  "checkCollision bodyPartPos targetPos radius =
     (case bodyPartPos of
        None \<Rightarrow> False
      | Some b \<Rightarrow>
          (case targetPos of
             None \<Rightarrow> False
           | Some t \<Rightarrow>
               let dx = tp_x b - vec_x t;
                   dy = tp_y b - vec_y t;
                   distance = sqrt (dx * dx + dy * dy)
               in distance < radius))"

text \<open>
  The two nested loops of \<open>detectBodyCollisions\<close>, pushing onto \<open>newCollisions\<close>: targets
  outside, the entries of the tracked parts inside. \<open>clock\<close> is \<open>Date.now()\<close> at the
  push for a target and a body part.
\<close>

definition pushCollision ::
  "(string \<Rightarrow> string \<Rightarrow> nat) \<Rightarrow> target \<Rightarrow> string \<times> trackedPart \<Rightarrow> collisionEvent list \<Rightarrow> collisionEvent list" where
  "pushCollision clock tgt entry newCollisions =
     (if checkCollision (Some (snd entry)) (Some (tgt_position tgt))
           (tp_radius (snd entry) + tgt_radius tgt)
      then newCollisions @
             [\<lparr>ev_bodyPart = fst entry, ev_target = tgt_id tgt,
               ev_timestamp = clock (tgt_id tgt) (fst entry), ev_position = snd entry\<rparr>]
      else newCollisions)"

definition collectCollisions ::
  "(string \<Rightarrow> string \<Rightarrow> nat) \<Rightarrow> trackedParts \<Rightarrow> target list \<Rightarrow> collisionEvent list" where
  "collectCollisions clock trackedParts targets =
     fold (\<lambda>tgt. fold (pushCollision clock tgt) trackedParts) targets []"

text \<open>\<open>xs.slice(-n)\<close>: the last \<open>n\<close> elements, all of them when there are fewer.\<close>

definition sliceFromEnd :: "nat \<Rightarrow> 'a list \<Rightarrow> 'a list" where
  "sliceFromEnd n xs = drop (length xs - n) xs"

text \<open>
  The update of the event history, made only for a non-empty batch:
  \<open>setCollisionEvents(prev => [...prev, ...newCollisions].slice(-50))\<close>.
\<close>

definition appendCollisions :: "'a list \<Rightarrow> 'a list \<Rightarrow> 'a list" where
  "appendCollisions prev newCollisions =
     (if length newCollisions > 0 then sliceFromEnd 50 (prev @ newCollisions) else prev)"

text \<open>\<open>detectBodyCollisions\<close>: from the history before the frame to the history after it.\<close>

definition detectBodyCollisions ::
  "(string \<Rightarrow> string \<Rightarrow> nat) \<Rightarrow> trackedParts \<Rightarrow> target list \<Rightarrow> collisionEvent list \<Rightarrow> collisionEvent list" where
  "detectBodyCollisions clock trackedParts targets collisionEvents =
     appendCollisions collisionEvents (collectCollisions clock trackedParts targets)"

subsection \<open>The detector as described\<close>



section \<open>Frame step\<close>

text \<open>What a call of a detector does: it returns a value or it throws.\<close>

datatype 'a outcome = Returns 'a | Throws

text \<open>The off-DOM video element, as far as \<open>detectPose\<close> reads it.\<close>

record video =
  videoWidth :: nat
  videoHeight :: nat
  readyState :: nat

text \<open>
  What one call of \<open>detectPose\<close> finds: whether the pose detector, the video and the
  canvas exist, how many poses \<open>estimatePoses\<close> gives (or that it throws), the hand
  landmarker when it was initialised, with what \<open>detectForVideo\<close> gives (\<open>None\<close> for no
  result, else the number of hands with landmarks), and the recording flag.
\<close>

record tick =
  tk_detector :: bool
  tk_video :: "video option"
  tk_canvas :: bool
  tk_estimatePoses :: "nat outcome"
  tk_handLandmarker :: "nat option outcome option"
  tk_isRecording :: bool

text \<open>The calls a frame step makes, in the order it makes them.\<close>

datatype effect =
    EstimatePoses
  | ClearRect
  | UpdateBodyPartTracking
  | DetectBodyCollisions
  | DetectForVideo
  | RecordFrameData
  | DrawHands
  | DrawFingertipMarkers
  | DrawPose
  | DrawCollisionFeedback
  | ConsoleError
  | RequestAnimationFrame

text \<open>
  \<open>detectPose\<close>. The first guard returns without rescheduling. Inside the \<open>try\<close> the
  pose detector is called first; the readiness check of the video stands in the branch of
  the hand landmarker and returns after rescheduling. A throwing detector is caught and
  logged, and the step is rescheduled after the \<open>try\<close>.
\<close>

definition detectPose :: "tick \<Rightarrow> effect list" where
  "detectPose t =
     (case tk_video t of
        None \<Rightarrow> []
      | Some vid \<Rightarrow>
          if \<not> tk_detector t \<or> \<not> tk_canvas t then []
          else
            (case tk_estimatePoses t of
               Throws \<Rightarrow> [EstimatePoses, ConsoleError, RequestAnimationFrame]
             | Returns poses \<Rightarrow>
                 [EstimatePoses, ClearRect]
                 @ (if poses > 0 then [UpdateBodyPartTracking, DetectBodyCollisions] else [])
                 @ (case tk_handLandmarker t of
                      None \<Rightarrow> [DrawPose, DrawCollisionFeedback, RequestAnimationFrame]
                    | Some detectForVideo \<Rightarrow>
                        if videoWidth vid = 0 \<or> videoHeight vid = 0 \<or> readyState vid < 2
                        then [RequestAnimationFrame]
                        else
                          (case detectForVideo of
                             Throws \<Rightarrow> [DetectForVideo, ConsoleError, RequestAnimationFrame]
                           | Returns handResult \<Rightarrow>
                               [DetectForVideo]
                               @ (if tk_isRecording t \<and> handResult \<noteq> None
                                  then [RecordFrameData] else [])
                               @ (case handResult of
                                    None \<Rightarrow> []
                                  | Some hands \<Rightarrow>
                                      if hands > 0 then [DrawHands, DrawFingertipMarkers] else [])
                               @ [DrawPose, DrawCollisionFeedback, RequestAnimationFrame]))))"

section \<open>Session recorder\<close>





section \<open>Recorded frames\<close>

record 'n landmark =
  lm_x :: 'n
  lm_y :: 'n
  lm_z :: 'n

text \<open>The result of the hand landmarker; each of its three fields may be missing.\<close>

record 'n handResult =
  hr_landmarks :: "'n landmark list list option"
  hr_worldLandmarks :: "'n landmark list list option"
  hr_handedness :: "(string \<times> 'n) list list option"

text \<open>
  A recorded frame. Its \<open>videoMeta\<close> field, a copy of the render state and the canvas
  size, is left out: the serializer does not read it.
\<close>

record 'n frame =
  timestamp :: 'n
  frameNumber :: nat
  pose2d :: "'n keypoint list"
  hands2d :: "'n landmark list list"
  hands3d :: "'n landmark list list"
  handedness :: "(string \<times> 'n) option list"

definition copyLandmark :: "'n landmark \<Rightarrow> 'n landmark" where
  "copyLandmark l = \<lparr>lm_x = lm_x l, lm_y = lm_y l, lm_z = lm_z l\<rparr>"

text \<open>
  \<open>recordFrameData\<close>: appends a frame to the session. \<open>poses\<close> holds the keypoints of
  each pose; only the first pose is stored, and none when the list is empty.
\<close>

definition recordFrameData ::
  "'n handResult \<Rightarrow> 'n keypoint list list \<Rightarrow> 'n \<Rightarrow> 'n frame list \<Rightarrow> 'n frame list" where
  "recordFrameData handResult poses ts sessionData =
     sessionData @
       [\<lparr>timestamp = ts,
         frameNumber = length sessionData,
         pose2d = (case poses of
                     [] \<Rightarrow> []
                   | pose # _ \<Rightarrow>
                       map (\<lambda>kp. \<lparr>kp_name = kp_name kp, kp_x = kp_x kp, kp_y = kp_y kp,
                                  kp_score = kp_score kp\<rparr>) pose),
         hands2d = (case hr_landmarks handResult of
                      None \<Rightarrow> []
                    | Some hs \<Rightarrow> map (map copyLandmark) hs),
         hands3d = (case hr_worldLandmarks handResult of
                      None \<Rightarrow> []
                    | Some hs \<Rightarrow> map (map copyLandmark) hs),
         handedness = (case hr_handedness handResult of
                         None \<Rightarrow> []
                       | Some hs \<Rightarrow> map (\<lambda>h. case h of [] \<Rightarrow> None | c # _ \<Rightarrow> Some c) hs)\<rparr>]"

section \<open>Binary serialization\<close>

text \<open>
  The serializer writes through a \<open>DataView\<close> over a zero-filled \<open>ArrayBuffer\<close>. A write
  that does not fit in the buffer throws a \<open>RangeError\<close>.
\<close>

datatype jsError = RangeError

type_synonym byte = "8 word"

text \<open>
  The bytes of a \<open>w\<close>-bit value as a \<open>DataView\<close> stores it: most significant byte first,
  reversed when the little-endian flag is set.
\<close>

definition rawBytes :: "nat \<Rightarrow> 'a::len word \<Rightarrow> bool \<Rightarrow> byte list" where
  "rawBytes n w littleEndian =
     (let bigEndian = map (\<lambda>i. ucast (drop_bit (8 * (n - 1 - i)) w)) [0..<n]
      in if littleEndian then rev bigEndian else bigEndian)"

definition setViewValue :: "byte list \<Rightarrow> nat \<Rightarrow> byte list \<Rightarrow> jsError + byte list" where
  "setViewValue buffer byteOffset bytes =
     (if byteOffset + length bytes > length buffer then Inl RangeError
      else Inr (take byteOffset buffer @ bytes @ drop (byteOffset + length bytes) buffer))"

text \<open>\<open>setUint32\<close> stores its argument modulo \<open>2 ^ 32\<close>.\<close>

definition setUint32 :: "byte list \<Rightarrow> nat \<Rightarrow> nat \<Rightarrow> bool \<Rightarrow> jsError + byte list" where
  "setUint32 buffer byteOffset v littleEndian =
     setViewValue buffer byteOffset (rawBytes 4 (word_of_nat v :: 32 word) littleEndian)"

text \<open>
  \<open>setFloat32\<close> and \<open>setFloat64\<close> store the IEEE bit pattern of a number. The two
  encodings are parameters: \<open>f32\<close> rounds a number to single precision and gives its 32
  bits, \<open>f64\<close> gives the 64 bits of a number.
\<close>

definition setFloat32 ::
  "('n \<Rightarrow> 32 word) \<Rightarrow> byte list \<Rightarrow> nat \<Rightarrow> 'n \<Rightarrow> bool \<Rightarrow> jsError + byte list" where
  "setFloat32 f32 buffer byteOffset v littleEndian =
     setViewValue buffer byteOffset (rawBytes 4 (f32 v) littleEndian)"

definition setFloat64 ::
  "('n \<Rightarrow> 64 word) \<Rightarrow> byte list \<Rightarrow> nat \<Rightarrow> 'n \<Rightarrow> bool \<Rightarrow> jsError + byte list" where
  "setFloat64 f64 buffer byteOffset v littleEndian =
     setViewValue buffer byteOffset (rawBytes 8 (f64 v) littleEndian)"

text \<open>The buffer being filled, with the local variable \<open>offset\<close>.\<close>

type_synonym writer = "byte list \<times> nat \<Rightarrow> jsError + byte list \<times> nat"

text \<open>A write at \<open>offset\<close> with the increment of \<open>offset\<close> that follows it.\<close>

definition putUint32 :: "nat \<Rightarrow> writer" where
  "putUint32 v st =
     (case setUint32 (fst st) (snd st) v True of
        Inl e \<Rightarrow> Inl e
      | Inr buffer \<Rightarrow> Inr (buffer, snd st + 4))"

definition putFloat32 :: "('n \<Rightarrow> 32 word) \<Rightarrow> 'n \<Rightarrow> writer" where
  "putFloat32 f32 v st =
     (case setFloat32 f32 (fst st) (snd st) v True of
        Inl e \<Rightarrow> Inl e
      | Inr buffer \<Rightarrow> Inr (buffer, snd st + 4))"

definition putFloat64 :: "('n \<Rightarrow> 64 word) \<Rightarrow> 'n \<Rightarrow> writer" where
  "putFloat64 f64 v st =
     (case setFloat64 f64 (fst st) (snd st) v True of
        Inl e \<Rightarrow> Inl e
      | Inr buffer \<Rightarrow> Inr (buffer, snd st + 8))"

text \<open>One statement after another; a throw ends the sequence.\<close>

definition andThen :: "writer \<Rightarrow> writer \<Rightarrow> writer" where
  "andThen first second st =
     (case first st of Inl e \<Rightarrow> Inl e | Inr st' \<Rightarrow> second st')"

text \<open>\<open>forEach\<close> with a body that writes.\<close>

fun forEach :: "('a \<Rightarrow> writer) \<Rightarrow> 'a list \<Rightarrow> writer" where
  "forEach body [] st = Inr st"
| "forEach body (x # xs) st =
     (case body x st of Inl e \<Rightarrow> Inl e | Inr st' \<Rightarrow> forEach body xs st')"

definition writePoseLandmark :: "('n \<Rightarrow> 32 word) \<Rightarrow> 'n keypoint \<Rightarrow> writer" where
  "writePoseLandmark f32 landmark =
     andThen (putFloat32 f32 (kp_x landmark))
       (andThen (putFloat32 f32 (kp_y landmark))
          (putFloat32 f32 (kp_score landmark)))"

definition writeHandLandmark :: "('n \<Rightarrow> 32 word) \<Rightarrow> 'n landmark \<Rightarrow> writer" where
  "writeHandLandmark f32 landmark =
     andThen (putFloat32 f32 (lm_x landmark))
       (andThen (putFloat32 f32 (lm_y landmark))
          (putFloat32 f32 (lm_z landmark)))"

definition writeFrame :: "('n \<Rightarrow> 32 word) \<Rightarrow> ('n \<Rightarrow> 64 word) \<Rightarrow> 'n frame \<Rightarrow> writer" where
  "writeFrame f32 f64 fr =
     andThen (putFloat64 f64 (timestamp fr))
       (andThen (putUint32 (frameNumber fr))
          (andThen (forEach (writePoseLandmark f32) (pose2d fr))
             (forEach (\<lambda>hand. forEach (writeHandLandmark f32) hand) (hands3d fr))))"

text \<open>
  \<open>createBinaryData\<close>: a buffer of \<open>frames.length * 4 * 1000\<close> zero bytes, the frame
  count, the frames, and at the end \<open>buffer.slice(0, offset)\<close>.
\<close>

definition createBinaryData ::
  "('n \<Rightarrow> 32 word) \<Rightarrow> ('n \<Rightarrow> 64 word) \<Rightarrow> 'n frame list \<Rightarrow> jsError + byte list" where
  "createBinaryData f32 f64 frames =
     (let buffer = replicate (length frames * 4 * 1000) 0
      in case andThen (putUint32 (length frames)) (forEach (writeFrame f32 f64) frames)
                (buffer, 0) of
           Inl e \<Rightarrow> Inl e
         | Inr st \<Rightarrow> Inr (take (snd st) (fst st)))"

text \<open>The configuration of the hand landmarker: \<open>numHands: 2\<close>.\<close>

definition numHands :: nat where
  "numHands = 2"

subsection \<open>The documented layout\<close>

text \<open>
  The layout as the format is documented, to compare the serializer with: values least
  significant byte first, a 32-bit frame count, then frame after frame.
\<close>

definition le32 :: "32 word \<Rightarrow> byte list" where
  "le32 w = [ucast w, ucast (drop_bit 8 w), ucast (drop_bit 16 w), ucast (drop_bit 24 w)]"

definition le64 :: "64 word \<Rightarrow> byte list" where
  "le64 w =
     [ucast w, ucast (drop_bit 8 w), ucast (drop_bit 16 w), ucast (drop_bit 24 w),
      ucast (drop_bit 32 w), ucast (drop_bit 40 w), ucast (drop_bit 48 w),
      ucast (drop_bit 56 w)]"

definition poseLayout :: "('n \<Rightarrow> 32 word) \<Rightarrow> 'n keypoint list \<Rightarrow> byte list" where
  "poseLayout f32 kps =
     concat (map (\<lambda>k. le32 (f32 (kp_x k)) @ le32 (f32 (kp_y k)) @ le32 (f32 (kp_score k))) kps)"

definition handLayout :: "('n \<Rightarrow> 32 word) \<Rightarrow> 'n landmark list \<Rightarrow> byte list" where
  "handLayout f32 hand =
     concat (map (\<lambda>l. le32 (f32 (lm_x l)) @ le32 (f32 (lm_y l)) @ le32 (f32 (lm_z l))) hand)"

definition frameLayout :: "('n \<Rightarrow> 32 word) \<Rightarrow> ('n \<Rightarrow> 64 word) \<Rightarrow> 'n frame \<Rightarrow> byte list" where
  "frameLayout f32 f64 fr =
     le64 (f64 (timestamp fr)) @ le32 (word_of_nat (frameNumber fr))
     @ poseLayout f32 (pose2d fr)
     @ concat (map (handLayout f32) (hands3d fr))"

definition sessionLayout :: "('n \<Rightarrow> 32 word) \<Rightarrow> ('n \<Rightarrow> 64 word) \<Rightarrow> 'n frame list \<Rightarrow> byte list" where
  "sessionLayout f32 f64 frames =
     le32 (word_of_nat (length frames)) @ concat (map (frameLayout f32 f64) frames)"

text \<open>The number of landmarks of all the hands of a frame.\<close>

definition handLandmarkCount :: "'n frame \<Rightarrow> nat" where
  "handLandmarkCount fr = sum_list (map length (hands3d fr))"

definition frameSize :: "'n frame \<Rightarrow> nat" where
  "frameSize fr = 12 + 12 * length (pose2d fr) + 12 * handLandmarkCount fr"

subsection \<open>What a writer writes\<close>

text \<open>The buffer and offset after bytes have been stored at the offset.\<close>

definition put :: "byte list \<Rightarrow> byte list \<times> nat \<Rightarrow> byte list \<times> nat" where
  "put bs st =
     (take (snd st) (fst st) @ bs @ drop (snd st + length bs) (fst st), snd st + length bs)"

text \<open>
  A writer writes the bytes \<open>bs\<close> when, from any offset inside the buffer, it stores them
  at the offset if they fit, and throws if they do not.
\<close>

definition writes :: "writer \<Rightarrow> byte list \<Rightarrow> bool" where
  "writes w bs =
     (\<forall>st. snd st \<le> length (fst st) \<longrightarrow>
        w st = (if snd st + length bs \<le> length (fst st) then Inr (put bs st)
                else Inl RangeError))"

section \<open>Example inputs\<close>

text \<open>A clock that stands still, for the examples.\<close>

definition fixedClock :: "string \<Rightarrow> nat" where
  "fixedClock bodyPart = 0"

text \<open>A frame in which the pose backend reports the left wrist alone, with a given score.\<close>

definition wristFrame :: "real \<Rightarrow> real keypoint list" where
  "wristFrame s = [\<lparr>kp_name = ''left_wrist'', kp_x = 100, kp_y = 200, kp_score = s\<rparr>]"

text \<open>Five frames with the wrist at a fixed position and a score that comes and goes.\<close>

definition wristScenario :: "real keypoint list list" where
  "wristScenario = map wristFrame [0.9, 0.1, 0.9, 0.9, 0.1]"


text \<open>A zone of radius 10 at the origin, and a target of radius 4 on the \<open>x\<close> axis.\<close>

definition zone10 :: "string \<times> trackedPart" where
  "zone10 =
     (''left_wrist'',
      \<lparr>tp_x = 0, tp_y = 0, tp_score = 1, tp_radius = 10, tp_lastUpdate = 0\<rparr>)"

definition targetAt :: "real \<Rightarrow> target" where
  "targetAt a = \<lparr>tgt_id = ''target1'', tgt_position = \<lparr>vec_x = a, vec_y = 0\<rparr>, tgt_radius = 4\<rparr>"

definition pairClock :: "string \<Rightarrow> string \<Rightarrow> nat" where
  "pairClock tgt bodyPart = 0"



text \<open>Encodings for the examples, whose numbers are all zero: the bits of zero.\<close>

definition zeroBits32 :: "real \<Rightarrow> 32 word" where
  "zeroBits32 v = 0"

definition zeroBits64 :: "real \<Rightarrow> 64 word" where
  "zeroBits64 v = 0"

text \<open>A result of the hand landmarker with no hand in it.\<close>

definition noHands :: "real handResult" where
  "noHands = \<lparr>hr_landmarks = Some [], hr_worldLandmarks = Some [], hr_handedness = Some []\<rparr>"

text \<open>A frame with 17 pose keypoints and two hands of 21 landmarks.\<close>

definition fullFrame :: "real frame" where
  "fullFrame =
     \<lparr>timestamp = 0, frameNumber = 0,
      pose2d = replicate 17 \<lparr>kp_name = ''nose'', kp_x = 0, kp_y = 0, kp_score = 0\<rparr>,
      hands2d = [],
      hands3d = replicate 2 (replicate 21 \<lparr>lm_x = 0, lm_y = 0, lm_z = 0\<rparr>),
      handedness = []\<rparr>"

section \<open>Verification of the coordinate mapper\<close>







text \<open>
  C7, as the code has it. \<open>setupCanvasSizing\<close> has no error condition and no guard
  against a zero size. The identity mapping is the initial render state only, which stays
  while no canvas is mounted. With a canvas, a zero viewport and a positive source size
  give scale 0 and offsets 0; a zero source size and a positive viewport give the scale
  \<open>+Infinity\<close> and the offsets \<open>NaN\<close>: the division by zero is carried out.
\<close>

theorem coordinate_mapper_degenerate:
  assumes "canvasRef st = Some c"
  shows "(0 < sw \<and> 0 < sh \<longrightarrow>
            renderStateRef (setupCanvasSizing dpr 0 0 sw sh st)
              = \<lparr>scale = Fin 0, drawX = Fin 0, drawY = Fin 0, videoW = sw, videoH = sh\<rparr>)
       \<and> (0 < dw \<and> 0 < dh \<longrightarrow>
            renderStateRef (setupCanvasSizing dpr dw dh 0 0 st)
              = \<lparr>scale = PosInf, drawX = NaN, drawY = NaN, videoW = 0, videoH = 0\<rparr>)
       \<and> setupCanvasSizing dpr dw dh sw sh (st\<lparr>canvasRef := None\<rparr>) = st\<lparr>canvasRef := None\<rparr>
       \<and> scale initialRenderState = Fin 1 \<and> drawX initialRenderState = Fin 0
       \<and> drawY initialRenderState = Fin 0"
  using assms by (simp add: setupCanvasSizing_def initialRenderState_def Let_def)

theorem coordinate_mapper_degenerate_witness:
  "canvasRef mountedSizing = Some \<lparr>canvasWidth = 300, canvasHeight = 150\<rparr>
   \<and> (0::real) < 640 \<and> (0::real) < 480
   \<and> renderStateRef (setupCanvasSizing 1 0 0 640 480 mountedSizing)
       = \<lparr>scale = Fin 0, drawX = Fin 0, drawY = Fin 0, videoW = 640, videoH = 480\<rparr>
   \<and> renderStateRef (setupCanvasSizing 1 640 480 0 0 mountedSizing)
       = \<lparr>scale = PosInf, drawX = NaN, drawY = NaN, videoW = 0, videoH = 0\<rparr>"
proof -
  have c: "canvasRef mountedSizing = Some \<lparr>canvasWidth = 300, canvasHeight = 150\<rparr>"
    by (simp add: mountedSizing_def)
  show ?thesis
    using c coordinate_mapper_degenerate [OF c, of 640 480 1 640 480]
    by simp
qed

text \<open>
  With a video that reports no size the stored mapping is not the identity: the scale is
  \<open>+Infinity\<close>.
\<close>

theorem coordinate_mapper_zero_source_counterexample:
  "scale (renderStateRef (setupCanvasSizing 1 480 480 0 0 mountedSizing)) = PosInf
   \<and> drawX (renderStateRef (setupCanvasSizing 1 480 480 0 0 mountedSizing)) = NaN
   \<and> drawY (renderStateRef (setupCanvasSizing 1 480 480 0 0 mountedSizing)) = NaN"
  by (simp add: setupCanvasSizing_def mountedSizing_def Let_def)

section \<open>Verification of the landmark smoother\<close>


lemma trackBodyPart_absent:
  assumes "getBodyPartPosition kps bp = None"
  shows "fst (trackBodyPart kps clock area st) bp = fst st bp"
    and "map_of (snd (trackBodyPart kps clock area st)) bp = map_of (snd st) bp"
  using assms
  by (auto simp: trackBodyPart_def Let_def update_conv' split: option.splits)

lemma fold_track_absent:
  assumes "getBodyPartPosition kps bp = None"
  shows "fst (fold (trackBodyPart kps clock) areas st) bp = fst st bp
       \<and> map_of (snd (fold (trackBodyPart kps clock) areas st)) bp = map_of (snd st) bp"
  using assms
  by (induction areas arbitrary: st) (simp_all add: trackBodyPart_absent)





lemma trackFrames_snoc:
  "snd (trackFrames clock (frames @ [kps]) sm) =
     fst (updateBodyPartTracking kps clock (snd (trackFrames clock frames sm)))"
  by (induction frames arbitrary: sm) (simp_all add: Let_def)



text \<open>
  C6. A body part whose keypoint is missing from the frame, or has a score not above 0.3,
  is not among the tracked zones of the frame, and the smoother's stored value for it is
  what it was before the frame.
\<close>

theorem smoother_low_confidence_omitted:
  assumes "\<forall>kp. find (\<lambda>k. kp_name k = bodyPart) keypoints = Some kp \<longrightarrow> kp_score kp \<le> 0.3"
  shows "fst (updateBodyPartTracking keypoints clock sm) bodyPart = sm bodyPart
       \<and> bodyPart \<notin> fst ` set (snd (updateBodyPartTracking keypoints clock sm))"
proof -
  have g: "getBodyPartPosition keypoints bodyPart = None"
    using assms by (auto simp: getBodyPartPosition_def split: option.splits)
  show ?thesis
    using fold_track_absent [OF g, of clock collisionAreas "(sm, [])"]
    by (simp add: updateBodyPartTracking_def map_of_eq_None_iff)
qed

text \<open>
  The scripted run of five frames: the left wrist is a tracked zone in frames 1, 3 and 4
  and in no other, and frames 2 and 5 leave the stored value of the wrist as it was.
\<close>

theorem smoother_low_confidence_omitted_witness:
  "map (map fst) (fst (trackFrames fixedClock wristScenario Map.empty))
     = [[''left_wrist''], [], [''left_wrist''], [''left_wrist''], []]
   \<and> snd (trackFrames fixedClock (take 2 wristScenario) Map.empty) ''left_wrist''
     = snd (trackFrames fixedClock (take 1 wristScenario) Map.empty) ''left_wrist''
   \<and> snd (trackFrames fixedClock wristScenario Map.empty) ''left_wrist''
     = snd (trackFrames fixedClock (take 4 wristScenario) Map.empty) ''left_wrist''
   \<and> snd (trackFrames fixedClock wristScenario Map.empty) ''left_wrist''
     = Some \<lparr>pos_x = 100, pos_y = 200, pos_score = 0.9\<rparr>"
proof -
  have low: "\<forall>kp. find (\<lambda>k. kp_name k = ''left_wrist'') (wristFrame 0.1) = Some kp
               \<longrightarrow> kp_score kp \<le> 0.3"
    by (simp add: wristFrame_def)
  note keep = smoother_low_confidence_omitted [OF low, of fixedClock, THEN conjunct1]
  have t2: "take 2 wristScenario = take 1 wristScenario @ [wristFrame 0.1]"
    by (simp add: wristScenario_def)
  have t5: "wristScenario = take 4 wristScenario @ [wristFrame 0.1]"
    by (simp add: wristScenario_def)
  have zones: "map (map fst) (fst (trackFrames fixedClock wristScenario Map.empty))
     = [[''left_wrist''], [], [''left_wrist''], [''left_wrist''], []]"
    by (simp add: wristScenario_def wristFrame_def updateBodyPartTracking_def
        collisionAreas_def trackBodyPart_def getBodyPartPosition_def Let_def)
  have f2: "snd (trackFrames fixedClock (take 2 wristScenario) Map.empty) ''left_wrist''
     = snd (trackFrames fixedClock (take 1 wristScenario) Map.empty) ''left_wrist''"
    unfolding t2 trackFrames_snoc by (rule keep)
  have f5: "snd (trackFrames fixedClock wristScenario Map.empty) ''left_wrist''
     = snd (trackFrames fixedClock (take 4 wristScenario) Map.empty) ''left_wrist''"
    by (subst t5, unfold trackFrames_snoc, rule keep)
  have v4: "snd (trackFrames fixedClock (take 4 wristScenario) Map.empty) ''left_wrist''
     = Some \<lparr>pos_x = 100, pos_y = 200, pos_score = 0.9\<rparr>"
    by (simp add: wristScenario_def wristFrame_def updateBodyPartTracking_def
        collisionAreas_def trackBodyPart_def getBodyPartPosition_def Let_def smoothingFactor_def)
  show ?thesis
    using zones f2 f5 v4 by simp
qed

section \<open>Verification of the collision detector\<close>






lemma sqrt_square_nonneg: "0 \<le> a \<Longrightarrow> sqrt (a * a) = a"
  by (simp add: real_sqrt_mult)

text \<open>
  A zone of radius 10 at the origin and a target of radius 4: no event at distance 15, none
  at distance 14, where the circles touch, and one event at distance 13.
\<close>

lemma collision_examples:
  "collectCollisions pairClock [zone10] [targetAt 15] = []"
  "collectCollisions pairClock [zone10] [targetAt 14] = []"
  "collectCollisions pairClock [zone10] [targetAt 13] =
     [\<lparr>ev_bodyPart = ''left_wrist'', ev_target = ''target1'', ev_timestamp = 0,
       ev_position = snd zone10\<rparr>]"
  by (simp_all add: collectCollisions_def pushCollision_def checkCollision_def zone10_def
      targetAt_def pairClock_def Let_def sqrt_square_nonneg)

section \<open>Verification of the collision history\<close>

lemma sliceFromEnd_append:
  "sliceFromEnd n (sliceFromEnd n xs @ ys) = sliceFromEnd n (xs @ ys)"
proof (cases "length xs \<le> n")
  case True
  then show ?thesis by (simp add: sliceFromEnd_def)
next
  case False
  then have "length xs + length ys - (length xs - n + n) + (length xs - n)
               = length xs + length ys - n"
    by simp
  with False show ?thesis by (simp add: sliceFromEnd_def)
qed

lemma sliceFromEnd_short: "length xs \<le> n \<Longrightarrow> sliceFromEnd n xs = xs"
  by (simp add: sliceFromEnd_def)

lemma length_sliceFromEnd: "length (sliceFromEnd n xs) \<le> n"
  by (simp add: sliceFromEnd_def)

lemma appendCollisions_slice:
  "length prev \<le> 50 \<Longrightarrow> appendCollisions prev new = sliceFromEnd 50 (prev @ new)"
  by (simp add: appendCollisions_def sliceFromEnd_short)

text \<open>Batch after batch, the history is the last 50 of everything that has arrived.\<close>

lemma foldl_appendCollisions:
  "foldl appendCollisions (sliceFromEnd 50 xs) batches = sliceFromEnd 50 (xs @ concat batches)"
proof (induction batches arbitrary: xs)
  case Nil
  show ?case by simp
next
  case (Cons b bs)
  have "appendCollisions (sliceFromEnd 50 xs) b = sliceFromEnd 50 (xs @ b)"
    by (simp add: appendCollisions_slice length_sliceFromEnd sliceFromEnd_append)
  then show ?case
    using Cons.IH [of "xs @ b"] by simp
qed

text \<open>
  C5. From the empty history, after any sequence of batches of events the history holds
  at most 50 events: the last 50 of all the events that arrived, in their order of
  arrival. A frame of \<open>detectBodyCollisions\<close> keeps the bound. Sixty events, pushed one by
  one or in one batch, leave the last fifty of them in their order.
\<close>

theorem collision_history_bounded:
  "length (foldl appendCollisions [] batches) \<le> 50
   \<and> foldl appendCollisions [] batches = sliceFromEnd 50 (concat batches)
   \<and> length (detectBodyCollisions clock trackedParts targets
               (foldl appendCollisions [] batches)) \<le> 50
   \<and> (length es = 60 \<longrightarrow>
        foldl appendCollisions [] (map (\<lambda>e. [e]) es) = drop 10 es
      \<and> appendCollisions [] es = drop 10 es)"
proof -
  have f: "foldl appendCollisions [] bs = sliceFromEnd 50 (concat bs)" for bs :: "'c list list"
    using foldl_appendCollisions [of "[]" bs] by (simp add: sliceFromEnd_def)
  have c: "concat (map (\<lambda>e. [e]) es) = es"
    by (induction es) simp_all
  have d: "length (detectBodyCollisions clock trackedParts targets
             (sliceFromEnd 50 (concat batches))) \<le> 50"
    by (simp add: detectBodyCollisions_def appendCollisions_def length_sliceFromEnd)
  show ?thesis
    using d by (auto simp: f c length_sliceFromEnd sliceFromEnd_def appendCollisions_def)
qed

theorem collision_history_bounded_witness:
  "length [0..<60] = 60
   \<and> foldl appendCollisions [] (map (\<lambda>e. [e]) [0..<60]) = [10..<60]
   \<and> appendCollisions [] [0..<60] = [10..<60]"
  using collision_history_bounded [where es = "[0..<60]" and batches = "[]"]
  by simp

section \<open>Verification of the frame step\<close>


text \<open>In every frame step, the hand landmarker is called on a ready video only.\<close>

lemma hand_detector_needs_ready:
  "DetectForVideo \<in> set (detectPose t) \<Longrightarrow>
     \<exists>vid. tk_video t = Some vid \<and> videoWidth vid \<noteq> 0 \<and> videoHeight vid \<noteq> 0
           \<and> 2 \<le> readyState vid"
  by (cases "tk_video t"; cases "tk_estimatePoses t"; cases "tk_handLandmarker t")
     (auto simp: detectPose_def split: outcome.splits option.splits if_splits)




section \<open>Verification of the session recorder\<close>







section \<open>Verification of the binary serialization\<close>

lemma upt4: "[0..<4] = [0, 1, 2, 3]"
  by (simp add: upt_rec)

lemma upt8: "[0..<8] = [0, 1, 2, 3, 4, 5, 6, 7]"
  by (simp add: upt_rec)

text \<open>With the little-endian flag a \<open>DataView\<close> stores the least significant byte first.\<close>

lemma rawBytes_le32: "rawBytes 4 w True = le32 w"
  by (simp add: rawBytes_def le32_def upt4)

lemma rawBytes_le64: "rawBytes 8 w True = le64 w"
  by (simp add: rawBytes_def le64_def upt8)

lemma length_le32 [simp]: "length (le32 w) = 4"
  by (simp add: le32_def)

lemma length_le64 [simp]: "length (le64 w) = 8"
  by (simp add: le64_def)

lemma put_put:
  assumes "snd st + length b1 \<le> length (fst st)"
  shows "put b2 (put b1 st) = put (b1 @ b2) st"
  using assms by (simp add: put_def ac_simps)

lemma writesD:
  assumes "writes w bs" and "snd st \<le> length (fst st)"
  shows "w st = (if snd st + length bs \<le> length (fst st) then Inr (put bs st)
                 else Inl RangeError)"
  using assms unfolding writes_def by blast

lemma writes_putUint32: "writes (putUint32 v) (le32 (word_of_nat v))"
  unfolding writes_def
  by (simp add: putUint32_def setUint32_def setViewValue_def put_def rawBytes_le32)

lemma writes_putFloat32: "writes (putFloat32 f32 v) (le32 (f32 v))"
  unfolding writes_def
  by (simp add: putFloat32_def setFloat32_def setViewValue_def put_def rawBytes_le32)

lemma writes_putFloat64: "writes (putFloat64 f64 v) (le64 (f64 v))"
  unfolding writes_def
  by (simp add: putFloat64_def setFloat64_def setViewValue_def put_def rawBytes_le64)

text \<open>
  Two writers in sequence write the two runs of bytes one after the other; when the
  whole does not fit, the first or the second of them throws.
\<close>

lemma writes_andThen:
  assumes "writes w1 b1" and "writes w2 b2"
  shows "writes (andThen w1 w2) (b1 @ b2)"
  unfolding writes_def
proof (intro allI impI)
  fix st :: "byte list \<times> nat"
  assume inv: "snd st \<le> length (fst st)"
  note 1 = writesD [OF assms(1) inv]
  show "andThen w1 w2 st =
          (if snd st + length (b1 @ b2) \<le> length (fst st) then Inr (put (b1 @ b2) st)
           else Inl RangeError)"
  proof (cases "snd st + length b1 \<le> length (fst st)")
    case False
    then show ?thesis
      by (simp add: andThen_def 1)
  next
    case True
    have inv': "snd (put b1 st) \<le> length (fst (put b1 st))"
      using True by (simp add: put_def)
    have len: "length (fst (put b1 st)) = length (fst st)"
              "snd (put b1 st) = snd st + length b1"
      using True by (simp_all add: put_def)
    have 2: "w2 (put b1 st) =
               (if snd st + length b1 + length b2 \<le> length (fst st)
                then Inr (put b2 (put b1 st)) else Inl RangeError)"
      using writesD [OF assms(2) inv'] by (simp add: len)
    show ?thesis
      using True by (simp add: andThen_def 1 2 put_put add.assoc)
  qed
qed

lemma writes_forEach:
  assumes "\<And>x. x \<in> set xs \<Longrightarrow> writes (body x) (g x)"
  shows "writes (forEach body xs) (concat (map g xs))"
  using assms
proof (induction xs)
  case Nil
  show ?case by (simp add: writes_def put_def)
next
  case (Cons x xs)
  have "forEach body (x # xs) = andThen (body x) (forEach body xs)"
    by (rule ext) (simp add: andThen_def)
  then show ?case
    using writes_andThen [of "body x" "g x" "forEach body xs" "concat (map g xs)"] Cons
    by simp
qed

lemma writes_writePoseLandmark:
  "writes (writePoseLandmark f32 k)
     (le32 (f32 (kp_x k)) @ le32 (f32 (kp_y k)) @ le32 (f32 (kp_score k)))"
  unfolding writePoseLandmark_def
  by (intro writes_andThen writes_putFloat32)

lemma writes_writeHandLandmark:
  "writes (writeHandLandmark f32 l)
     (le32 (f32 (lm_x l)) @ le32 (f32 (lm_y l)) @ le32 (f32 (lm_z l)))"
  unfolding writeHandLandmark_def
  by (intro writes_andThen writes_putFloat32)

lemma writes_writeFrame: "writes (writeFrame f32 f64 fr) (frameLayout f32 f64 fr)"
  unfolding writeFrame_def frameLayout_def poseLayout_def handLayout_def
  by (intro writes_andThen writes_putFloat64 writes_putUint32 writes_forEach
       writes_writePoseLandmark writes_writeHandLandmark)

lemma writes_session:
  "writes (andThen (putUint32 (length frames)) (forEach (writeFrame f32 f64) frames))
     (sessionLayout f32 f64 frames)"
  unfolding sessionLayout_def
  by (intro writes_andThen writes_putUint32 writes_forEach writes_writeFrame)

text \<open>
  The serializer returns the documented layout of the frames, cut at the last byte
  written, when the layout fits the buffer it allocates, and throws otherwise.
\<close>

lemma createBinaryData_layout:
  "createBinaryData f32 f64 frames =
     (if length (sessionLayout f32 f64 frames) \<le> length frames * 4 * 1000
      then Inr (sessionLayout f32 f64 frames) else Inl RangeError)"
  using writes_session [of frames f32 f64]
  by (simp add: createBinaryData_def writes_def put_def Let_def)

lemma length_poseLayout: "length (poseLayout f32 kps) = 12 * length kps"
  by (induction kps) (simp_all add: poseLayout_def)

lemma length_handLayout: "length (handLayout f32 hand) = 12 * length hand"
  by (induction hand) (simp_all add: handLayout_def)

lemma length_handsLayout:
  "length (concat (map (handLayout f32) hands)) = 12 * sum_list (map length hands)"
  by (induction hands) (simp_all add: length_handLayout)

lemma length_frameLayout: "length (frameLayout f32 f64 fr) = frameSize fr"
  by (simp add: frameLayout_def frameSize_def handLandmarkCount_def length_poseLayout
      length_handsLayout)

lemma length_sessionLayout:
  "length (sessionLayout f32 f64 frames) = 4 + sum_list (map frameSize frames)"
proof -
  have "length (concat (map (frameLayout f32 f64) frames)) = sum_list (map frameSize frames)"
    by (induction frames) (simp_all add: length_frameLayout)
  then show ?thesis by (simp add: sessionLayout_def)
qed

lemma sum_list_bound:
  assumes "\<And>x. x \<in> set xs \<Longrightarrow> f x \<le> (b::nat)"
  shows "sum_list (map f xs) \<le> b * length xs"
  using assms by (induction xs) (simp_all add: add_mono)

lemma frameSize_bound:
  assumes "length (pose2d fr) \<le> 17" and "length (hands3d fr) \<le> numHands"
      and "\<And>h. h \<in> set (hands3d fr) \<Longrightarrow> length h \<le> 21"
  shows "frameSize fr \<le> 720"
proof -
  have "sum_list (map length (hands3d fr)) \<le> 21 * length (hands3d fr)"
    using assms(3) by (rule sum_list_bound)
  also have "\<dots> \<le> 21 * 2"
    using assms(2) by (simp add: numHands_def)
  finally show ?thesis
    using assms(1) by (simp add: frameSize_def handLandmarkCount_def)
qed

text \<open>
  C1, as the code has it. Whenever \<open>createBinaryData\<close> returns, its result is the
  documented little-endian layout: the 32-bit frame count, then for each frame in order
  the 64-bit timestamp, the 32-bit frame number, three 32-bit floats \<open>(x, y, score)\<close> for
  each keypoint stored in the frame, and three 32-bit floats \<open>(x, y, z)\<close> for each landmark
  of each hand of \<open>hands3d\<close>, with no hand count and no padding: the result has exactly
  4 bytes and, for each frame, 12 bytes and 12 for each keypoint and each hand landmark.
  The keypoints stored in a frame are those of the first pose, 17 of them from the pose
  backend and then 204 bytes, and none when no pose was found.
\<close>

theorem binary_layout:
  "createBinaryData f32 f64 frames =
     (if length (sessionLayout f32 f64 frames) \<le> length frames * 4 * 1000
      then Inr (sessionLayout f32 f64 frames) else Inl RangeError)
   \<and> length (sessionLayout f32 f64 frames) = 4 + sum_list (map frameSize frames)
   \<and> length (frameLayout f32 f64 fr) = 12 + 12 * length (pose2d fr) + 12 * handLandmarkCount fr
   \<and> length (poseLayout f32 (replicate 17 kp)) = 204
   \<and> length (handLayout f32 (replicate 21 lm)) = 252
   \<and> pose2d (last (recordFrameData handResult poses ts sessionData))
       = (case poses of [] \<Rightarrow> [] | pose # others \<Rightarrow> pose)
   \<and> frameNumber (last (recordFrameData handResult poses ts sessionData)) = length sessionData"
proof -
  have rec: "pose2d (last (recordFrameData handResult poses ts sessionData))
       = (case poses of [] \<Rightarrow> [] | pose # others \<Rightarrow> pose)"
  proof (cases poses)
    case Nil
    then show ?thesis by (simp add: recordFrameData_def)
  next
    case (Cons pose others)
    have "map (\<lambda>k. \<lparr>kp_name = kp_name k, kp_x = kp_x k, kp_y = kp_y k,
                      kp_score = kp_score k\<rparr>) pose = pose"
      by (rule map_idI) simp
    with Cons show ?thesis by (simp add: recordFrameData_def)
  qed
  have num: "frameNumber (last (recordFrameData handResult poses ts sessionData))
       = length sessionData"
    by (simp add: recordFrameData_def)
  have fl: "length (frameLayout f32 f64 fr)
       = 12 + 12 * length (pose2d fr) + 12 * handLandmarkCount fr"
    by (simp add: length_frameLayout frameSize_def)
  show ?thesis
    using createBinaryData_layout [of f32 f64 frames] length_sessionLayout [of f32 f64 frames]
      fl rec num
    by (simp add: length_poseLayout length_handLayout)
qed

text \<open>
  A session of one frame recorded while no pose was found is 16 bytes long: the count,
  the timestamp and the frame number, and no keypoint at all.
\<close>

theorem binary_layout_no_pose_counterexample:
  "createBinaryData zeroBits32 zeroBits64 (recordFrameData noHands [] 0 []) =
     Inr [1, 0, 0, 0, 0, 0, 0, 0, 0, 0, 0, 0, 0, 0, 0, 0]"
  by (simp add: createBinaryData_layout sessionLayout_def frameLayout_def poseLayout_def
      recordFrameData_def noHands_def zeroBits64_def le32_def le64_def)

text \<open>
  C10. For a non-empty list of frames, each with at most 17 pose keypoints and at most
  \<open>numHands\<close> hands of at most 21 landmarks, the serializer returns: no write leaves the
  buffer. The bytes written are 4 and, for each frame, 12 and 12 for each keypoint and
  each hand landmark, at most 720 for a frame, which is within the \<open>frames.length * 4000\<close>
  bytes of the buffer.
\<close>

theorem serialization_in_bounds:
  assumes "frames \<noteq> []"
      and "\<forall>fr \<in> set frames. length (pose2d fr) \<le> 17 \<and> length (hands3d fr) \<le> numHands
                              \<and> (\<forall>h \<in> set (hands3d fr). length h \<le> 21)"
  shows "\<exists>out. createBinaryData f32 f64 frames = Inr out
           \<and> length out = 4 + sum_list (map frameSize frames)
           \<and> length out \<le> 4 + 720 * length frames
           \<and> length out \<le> length frames * 4 * 1000"
proof -
  have "sum_list (map frameSize frames) \<le> 720 * length frames"
    using assms(2) by (intro sum_list_bound frameSize_bound) auto
  moreover have "1 \<le> length frames"
    using assms(1) by (cases frames) simp_all
  ultimately have b: "4 + sum_list (map frameSize frames) \<le> 4 + 720 * length frames"
    "4 + sum_list (map frameSize frames) \<le> length frames * 4 * 1000"
    by linarith+
  show ?thesis
    using b by (simp add: createBinaryData_layout length_sessionLayout)
qed

theorem serialization_in_bounds_witness:
  "[fullFrame] \<noteq> []
   \<and> length (pose2d fullFrame) = 17
   \<and> map length (hands3d fullFrame) = [21, 21]
   \<and> (\<exists>out. createBinaryData zeroBits32 zeroBits64 [fullFrame] = Inr out
          \<and> length out = 724)"
proof -
  have h: "\<forall>fr \<in> set [fullFrame]. length (pose2d fr) \<le> 17 \<and> length (hands3d fr) \<le> numHands
                              \<and> (\<forall>h \<in> set (hands3d fr). length h \<le> 21)"
    by (simp add: fullFrame_def numHands_def)
  have n: "[fullFrame] \<noteq> []"
    by simp
  have s: "frameSize fullFrame = 720"
    by (simp add: frameSize_def handLandmarkCount_def fullFrame_def sum_list_replicate)
  have m: "map length (hands3d fullFrame) = [21, 21]"
    by (simp add: fullFrame_def numeral_2_eq_2)
  have k: "length (pose2d fullFrame) = 17"
    by (simp add: fullFrame_def)
  have "\<exists>out. createBinaryData zeroBits32 zeroBits64 [fullFrame] = Inr out
          \<and> length out = 724"
    using serialization_in_bounds [OF n h, of zeroBits32 zeroBits64] s by auto
  then show ?thesis
    using n k m by blast
qed

end
